theory Spec2Isabelle
  imports Complex_Main "HOL-Library.Sublist"
begin

section \<open>The evaluation script \<^verbatim>\<open>back_end/evaluate.py\<close>\<close>

text \<open>
  The script scores a question-answering component against gold answers. This theory
  embeds its functions \<^verbatim>\<open>normalize_answer\<close>, \<^verbatim>\<open>answer_f1\<close>,
  \<^verbatim>\<open>classify_error\<close>, \<^verbatim>\<open>get_relation_type\<close> and the loop and the final
  ratios of \<^verbatim>\<open>evaluate\<close>. The console output and the CSV rows of \<^verbatim>\<open>evaluate\<close>
  are effects on the outside and are not part of the model; Python's floats are read as
  real numbers.
\<close>

subsection \<open>Strings, errors and the Unicode tables\<close>

text \<open>
  A Python \<^verbatim>\<open>str\<close> is a sequence of Unicode code points, so a string is a list of
  natural numbers; \<open>ascii\<close> writes an ASCII literal of the source.
\<close>

type_synonym codepoint = nat
type_synonym pystr = "codepoint list"

definition ascii :: "string \<Rightarrow> pystr" where
  "ascii s = map of_char s"

datatype py_error = ZeroDivisionError

text \<open>
  \<^verbatim>\<open>str.lower\<close>, the class \<^verbatim>\<open>\w\<close> and the class \<^verbatim>\<open>\s\<close> (which is also the
  separator set of \<^verbatim>\<open>str.split()\<close>) are tables of the Python runtime, not code of the
  script: the functions below take them as a parameter, and every general theorem holds
  for all tables.
\<close>

record unicode_tables =
  lower :: "pystr \<Rightarrow> pystr"
  word_char :: "codepoint \<Rightarrow> bool"
  space_char :: "codepoint \<Rightarrow> bool"

text \<open>
  The tables on ASCII text, where they are: \<^verbatim>\<open>A-Z\<close> lower-cased by adding 32,
  \<^verbatim>\<open>\w\<close> the class \<^verbatim>\<open>[0-9A-Za-z_]\<close>, and the white space \<^verbatim>\<open>\t \n \v \f \r\<close>,
  \<^verbatim>\<open>\x1c-\x1f\<close> and the blank. Code points from 128 on are left alone by \<open>lower\<close> and
  count as word characters, which is what Python does for the CJK ideographs of the
  script's corpus. These tables serve the concrete evaluations only.
\<close>

definition ascii_lower :: "codepoint \<Rightarrow> codepoint" where
  "ascii_lower c = (if 65 \<le> c \<and> c \<le> 90 then c + 32 else c)"

definition ascii_word_char :: "codepoint \<Rightarrow> bool" where
  "ascii_word_char c =
     ((48 \<le> c \<and> c \<le> 57) \<or> (65 \<le> c \<and> c \<le> 90) \<or> c = 95 \<or> (97 \<le> c \<and> c \<le> 122) \<or> 128 \<le> c)"

definition ascii_space_char :: "codepoint \<Rightarrow> bool" where
  "ascii_space_char c = ((9 \<le> c \<and> c \<le> 13) \<or> (28 \<le> c \<and> c \<le> 32))"

definition ascii_tables :: unicode_tables where
  "ascii_tables =
     \<lparr>lower = map ascii_lower, word_char = ascii_word_char, space_char = ascii_space_char\<rparr>"

subsection \<open>String operations of the runtime\<close>

text \<open>\<^verbatim>\<open>sep.join(xs)\<close>.\<close>

fun join :: "pystr \<Rightarrow> pystr list \<Rightarrow> pystr" where
  "join sep [] = []"
| "join sep [x] = x"
| "join sep (x # y # ys) = x @ sep @ join sep (y # ys)"

text \<open>
  \<^verbatim>\<open>text.split()\<close>: the maximal runs of characters that are not white space, in
  order; \<open>cur\<close> is the run being read.
\<close>

fun split_from :: "(codepoint \<Rightarrow> bool) \<Rightarrow> pystr \<Rightarrow> pystr \<Rightarrow> pystr list" where
  "split_from sp cur [] = (if cur = [] then [] else [cur])"
| "split_from sp cur (c # cs) =
     (if sp c then (if cur = [] then split_from sp [] cs else cur # split_from sp [] cs)
      else split_from sp (cur @ [c]) cs)"

definition split :: "unicode_tables \<Rightarrow> pystr \<Rightarrow> pystr list" where
  "split U text = split_from (space_char U) [] text"

text \<open>\<^verbatim>\<open>re.sub(r'[^\w\s]', ' ', text)\<close>: every other character becomes a blank.\<close>

definition sub_non_word :: "unicode_tables \<Rightarrow> pystr \<Rightarrow> pystr" where
  "sub_non_word U text = map (\<lambda>c. if word_char U c \<or> space_char U c then c else 32) text"

text \<open>\<^verbatim>\<open>sub in text\<close> on strings.\<close>

fun contains :: "pystr \<Rightarrow> pystr \<Rightarrow> bool" where
  "contains [] sub = (sub = [])"
| "contains (c # cs) sub = (prefix sub (c # cs) \<or> contains cs sub)"

text \<open>
  \<^verbatim>\<open>a / b\<close> raises \<^verbatim>\<open>ZeroDivisionError\<close> on a zero divisor, for integers and for
  floats.
\<close>

definition truediv :: "real \<Rightarrow> real \<Rightarrow> py_error + real" where
  "truediv a b = (if b = 0 then Inl ZeroDivisionError else Inr (a / b))"

subsection \<open>The regular expressions of the script\<close>

text \<open>
  The five patterns are made of literal characters and of the group \<^verbatim>\<open>(.+)\<close>, and
  the script only asks whether \<^verbatim>\<open>re.search\<close> finds a match. \<open>match_here\<close> matches
  a pattern at the front of a string; the dot takes every character but the newline.
\<close>

datatype re_item = Lit codepoint | AnyPlus

fun match_here :: "re_item list \<Rightarrow> pystr \<Rightarrow> bool" where
  "match_here [] s = True"
| "match_here (Lit a # r) [] = False"
| "match_here (Lit a # r) (c # cs) = (a = c \<and> match_here r cs)"
| "match_here (AnyPlus # r) [] = False"
| "match_here (AnyPlus # r) (c # cs) =
     (c \<noteq> 10 \<and> (match_here r cs \<or> match_here (AnyPlus # r) cs))"

fun re_search :: "re_item list \<Rightarrow> pystr \<Rightarrow> bool" where
  "re_search p [] = match_here p []"
| "re_search p (c # cs) = (match_here p (c # cs) \<or> re_search p cs)"

definition lits :: "pystr \<Rightarrow> re_item list" where
  "lits s = map Lit s"

text \<open>The patterns of lines 74 to 78, with the code points of their characters.\<close>

definition pat_lyricist_of_song :: "re_item list" where
  "pat_lyricist_of_song =
     lits [27468, 26354] @ [AnyPlus] @ lits [30340, 20316, 35789, 20154, 26159]"

definition pat_is_sung_by_whom :: "re_item list" where
  "pat_is_sung_by_whom = [AnyPlus] @ lits [26159, 35841, 21809, 30340]"

definition pat_who_sang :: "re_item list" where
  "pat_who_sang = lits [35841, 21809, 30340] @ [AnyPlus]"

definition pat_who_wrote_lyrics :: "re_item list" where
  "pat_who_wrote_lyrics = lits [35841, 20316, 35789, 30340] @ [AnyPlus]"

definition pat_of_which_album :: "re_item list" where
  "pat_of_which_album = [AnyPlus] @ lits [26159, 21738, 20010, 19987, 36753, 30340]"

definition matched_patterns :: "pystr \<Rightarrow> bool" where
  "matched_patterns question =
     (re_search pat_lyricist_of_song question \<or>
      re_search pat_is_sung_by_whom question \<or>
      re_search pat_who_sang question \<or>
      re_search pat_who_wrote_lyrics question \<or>
      re_search pat_of_which_album question)"

subsection \<open>Scoring\<close>

definition normalize_answer :: "unicode_tables \<Rightarrow> pystr \<Rightarrow> pystr set" where
  "normalize_answer U text =
     (if text = [] then {}
      else set (split U (sub_non_word U (lower U text))))"

definition answer_f1 :: "unicode_tables \<Rightarrow> pystr \<Rightarrow> pystr list \<Rightarrow> py_error + real" where
  "answer_f1 U pred gold =
     (let pred_tokens = normalize_answer U pred;
          gold_tokens = normalize_answer U (join (ascii '' '') gold)
      in if gold_tokens = {} then Inr (if pred_tokens = {} then 1 else 0)
         else if pred_tokens = {} then Inr 0
         else
           let common = pred_tokens \<inter> gold_tokens in
           case truediv (real (card common)) (real (card pred_tokens)) of
             Inl e \<Rightarrow> Inl e
           | Inr precision \<Rightarrow>
               (case truediv (real (card common)) (real (card gold_tokens)) of
                  Inl e \<Rightarrow> Inl e
                | Inr recall \<Rightarrow>
                    if precision + recall > 0
                    then truediv (2 * precision * recall) (precision + recall)
                    else Inr 0))"

definition classify_error :: "pystr \<Rightarrow> pystr list \<Rightarrow> pystr list \<Rightarrow> bool \<Rightarrow> pystr" where
  "classify_error question golden system_pred matched =
     (if \<not> matched then ascii ''pattern_mismatch''
      else if system_pred = [] then ascii ''kg_missing''
      else if set system_pred = set golden then ascii ''correct''
      else ascii ''wrong_retrieval'')"

text \<open>
  The relation names of \<^verbatim>\<open>get_relation_type\<close> are Chinese words, given by their code
  points: the lyricist marker, the two singer markers and the name of the rest.
\<close>

definition rel_lyricist :: pystr where
  "rel_lyricist = [20316, 35789]"

definition rel_singer :: pystr where
  "rel_singer = [27468, 25163]"

definition rel_other :: pystr where
  "rel_other = [20854, 20182]"

definition get_relation_type :: "pystr \<Rightarrow> pystr" where
  "get_relation_type question =
     (if contains question rel_lyricist then rel_lyricist
      else if contains question [21809] \<or> contains question rel_singer then rel_singer
      else rel_other)"

subsection \<open>The loop of \<open>evaluate\<close>\<close>

text \<open>
  A record of \<^verbatim>\<open>test_cases.json\<close>, and the dictionary that \<^verbatim>\<open>query_handler\<close>
  returns. The handler is the system under test: the model takes it as a function.
\<close>

record test_case =
  question :: pystr
  golden_answer :: "pystr list"
  llm_answer :: pystr

record handler_result =
  state :: int
  data :: "pystr list"

type_synonym handler = "pystr \<Rightarrow> handler_result"

text \<open>One entry of \<^verbatim>\<open>relation_stats\<close>, with the keys \<^verbatim>\<open>p r f1 count\<close>.\<close>

record relation_stat =
  stat_p :: int
  stat_r :: int
  stat_f1 :: real
  stat_count :: int

text \<open>
  The variables the loop updates. \<^verbatim>\<open>error_stats\<close> is a \<^verbatim>\<open>defaultdict(int)\<close>: a
  key never written reads as 0.
\<close>

record run_state =
  f1_total :: real
  hits_at_1 :: int
  hdr_numerator :: int
  hdr_denominator :: int
  error_stats :: "pystr \<Rightarrow> int"
  relation_stats :: "pystr \<rightharpoonup> relation_stat"

definition initial_state :: run_state where
  "initial_state =
     \<lparr>f1_total = 0, hits_at_1 = 0, hdr_numerator = 0, hdr_denominator = 0,
      error_stats = (\<lambda>k. 0),
      relation_stats =
        [rel_singer \<mapsto> \<lparr>stat_p = 0, stat_r = 0, stat_f1 = 0, stat_count = 0\<rparr>,
         rel_lyricist \<mapsto> \<lparr>stat_p = 0, stat_r = 0, stat_f1 = 0, stat_count = 0\<rparr>]\<rparr>"

text \<open>Line 69: the answers of a handler, none when its state is not 0.\<close>

definition system_answers :: "handler \<Rightarrow> pystr \<Rightarrow> pystr list" where
  "system_answers query_handler q =
     (let res = query_handler q in if state res = 0 then data res else [])"

text \<open>Line 90.\<close>

definition llm_correct :: "unicode_tables \<Rightarrow> pystr \<Rightarrow> pystr list \<Rightarrow> bool" where
  "llm_correct U llm_ans golden =
     (set (map (lower U) golden) \<subseteq> normalize_answer U llm_ans)"

text \<open>The body of the loop, lines 61 to 104.\<close>

definition process_case ::
  "unicode_tables \<Rightarrow> handler \<Rightarrow> run_state \<Rightarrow> test_case \<Rightarrow> py_error + run_state" where
  "process_case U query_handler s tc =
     (let golden = golden_answer tc;
          system_ans = system_answers query_handler (question tc);
          final_str = join (ascii '', '') system_ans;
          matched = matched_patterns (question tc)
      in case answer_f1 U final_str golden of
           Inl e \<Rightarrow> Inl e
         | Inr f1 \<Rightarrow>
             let s1 = s\<lparr>f1_total := f1_total s + f1\<rparr>;
                 s2 = (if system_ans \<noteq> [] \<and> set system_ans \<inter> set golden \<noteq> {}
                       then s1\<lparr>hits_at_1 := hits_at_1 s1 + 1\<rparr> else s1);
                 s3 = (if \<not> llm_correct U (llm_answer tc) golden
                       then (let s' = s2\<lparr>hdr_denominator := hdr_denominator s2 + 1\<rparr>
                             in if set golden \<subseteq> set system_ans
                                then s'\<lparr>hdr_numerator := hdr_numerator s' + 1\<rparr> else s')
                       else s2);
                 err_type = classify_error (question tc) golden system_ans matched;
                 s4 = s3\<lparr>error_stats := (error_stats s3)(err_type := error_stats s3 err_type + 1)\<rparr>;
                 rel = get_relation_type (question tc)
             in Inr (case relation_stats s4 rel of
                       None \<Rightarrow> s4
                     | Some b \<Rightarrow>
                         s4\<lparr>relation_stats := (relation_stats s4)
                              (rel \<mapsto> b\<lparr>stat_count := stat_count b + 1,
                                        stat_f1 := stat_f1 b + f1\<rparr>)\<rparr>))"

fun run_cases ::
  "unicode_tables \<Rightarrow> handler \<Rightarrow> run_state \<Rightarrow> test_case list \<Rightarrow> py_error + run_state" where
  "run_cases U query_handler s [] = Inr s"
| "run_cases U query_handler s (tc # tcs) =
     (case process_case U query_handler s tc of
        Inl e \<Rightarrow> Inl e
      | Inr s' \<Rightarrow> run_cases U query_handler s' tcs)"

subsection \<open>The final ratios of \<open>evaluate\<close>\<close>

text \<open>Line 120.\<close>

definition hdr_rate :: "int \<Rightarrow> int \<Rightarrow> py_error + real" where
  "hdr_rate numerator denominator =
     (if denominator > 0
      then (case truediv (real_of_int numerator) (real_of_int denominator) of
              Inl e \<Rightarrow> Inl e
            | Inr q \<Rightarrow> Inr (q * 100))
      else Inr 0)"

record run_summary =
  avg_f1 :: real
  hits_at_1_rate :: real
  hdr :: real

text \<open>Lines 48 to 120: the loop from the initial values, then the three ratios in order.\<close>

definition evaluate ::
  "unicode_tables \<Rightarrow> handler \<Rightarrow> test_case list \<Rightarrow> py_error + run_summary" where
  "evaluate U query_handler TEST_CASES =
     (let total = int (length TEST_CASES)
      in case run_cases U query_handler initial_state TEST_CASES of
           Inl e \<Rightarrow> Inl e
         | Inr s \<Rightarrow>
             (case truediv (f1_total s) (real_of_int total) of
                Inl e \<Rightarrow> Inl e
              | Inr q1 \<Rightarrow>
                  (case truediv (real_of_int (hits_at_1 s)) (real_of_int total) of
                     Inl e \<Rightarrow> Inl e
                   | Inr q2 \<Rightarrow>
                       (case hdr_rate (hdr_numerator s) (hdr_denominator s) of
                          Inl e \<Rightarrow> Inl e
                        | Inr h \<Rightarrow>
                            Inr \<lparr>avg_f1 = q1 * 100, hits_at_1_rate = q2 * 100, hdr = h\<rparr>))))"

subsection \<open>Concrete inputs\<close>

text \<open>
  A handler and two small corpora for the concrete evaluations. The handler answers
  \<^verbatim>\<open>q2\<close> and \<^verbatim>\<open>q4\<close> and reports a miss (state 1) for every other question.
\<close>

definition demo_handler :: handler where
  "demo_handler q =
     (if q = ascii ''q2'' then \<lparr>state = 0, data = [ascii ''Jay'']\<rparr>
      else if q = ascii ''q4'' then \<lparr>state = 0, data = [ascii ''jay'', ascii ''Tom'']\<rparr>
      else \<lparr>state = 1, data = [ascii ''Jay'']\<rparr>)"

definition demo_corpus :: "test_case list" where
  "demo_corpus =
     [\<lparr>question = ascii ''q1'', golden_answer = [ascii ''Jay''], llm_answer = ascii ''It is Jay.''\<rparr>,
      \<lparr>question = ascii ''q2'', golden_answer = [ascii ''Jay''], llm_answer = ascii ''Tom''\<rparr>,
      \<lparr>question = ascii ''q3'', golden_answer = [ascii ''Jay''], llm_answer = []\<rparr>]"

definition hits_corpus :: "test_case list" where
  "hits_corpus =
     [\<lparr>question = ascii ''q4'', golden_answer = [ascii ''Tom'', ascii ''Ann''], llm_answer = []\<rparr>,
      \<lparr>question = ascii ''q4'', golden_answer = [ascii ''Jay''], llm_answer = []\<rparr>,
      \<lparr>question = ascii ''q3'', golden_answer = [ascii ''Jay''], llm_answer = []\<rparr>]"

text \<open>The question of the scenario of the specification, "who sang Nocturne".\<close>

definition night_song_question :: pystr where
  "night_song_question = [35841, 21809, 30340, 22812, 26354]"

section \<open>Properties\<close>

subsection \<open>Auxiliary facts\<close>

lemma finite_normalize_answer: "finite (normalize_answer U text)"
  by (simp add: normalize_answer_def)

text \<open>Past the two emptiness tests no division of \<open>answer_f1\<close> can raise.\<close>

lemma answer_f1_nonempty:
  assumes P: "normalize_answer U pred \<noteq> {}"
    and G: "normalize_answer U (join (ascii '' '') gold) \<noteq> {}"
  shows "answer_f1 U pred gold =
     (let c = real (card (normalize_answer U pred \<inter> normalize_answer U (join (ascii '' '') gold)));
          precision = c / real (card (normalize_answer U pred));
          recall = c / real (card (normalize_answer U (join (ascii '' '') gold)))
      in Inr (if precision + recall > 0 then 2 * precision * recall / (precision + recall) else 0))"
proof -
  have cp: "real (card (normalize_answer U pred)) \<noteq> 0"
    using P finite_normalize_answer by (simp add: card_eq_0_iff)
  have cg: "real (card (normalize_answer U (join (ascii '' '') gold))) \<noteq> 0"
    using G finite_normalize_answer by (simp add: card_eq_0_iff)
  show ?thesis
    using P G cp cg
    by (simp add: answer_f1_def Let_def truediv_def)
qed

lemma harmonic_bounds:
  fixes p r :: real
  assumes "0 \<le> p" "p \<le> 1" "0 \<le> r" "r \<le> 1" "0 < p + r"
  shows "0 \<le> 2 * p * r / (p + r) \<and> 2 * p * r / (p + r) \<le> 1"
proof
  show "0 \<le> 2 * p * r / (p + r)" using assms by simp
  have "p * r \<le> p" using assms by (simp add: mult_left_le)
  moreover have "p * r \<le> r" using assms by (simp add: mult_left_le_one_le)
  ultimately have "2 * p * r \<le> p + r" by simp
  then show "2 * p * r / (p + r) \<le> 1" using assms by simp
qed

lemma ratio_bounds:
  assumes "finite A" "A \<noteq> {}"
  shows "0 \<le> real (card (B \<inter> A)) / real (card A) \<and> real (card (B \<inter> A)) / real (card A) \<le> 1"
    and "0 \<le> real (card (A \<inter> B)) / real (card A) \<and> real (card (A \<inter> B)) / real (card A) \<le> 1"
proof -
  have pos: "0 < real (card A)" using assms by (simp add: card_gt_0_iff)
  have "card (B \<inter> A) \<le> card A" using assms by (simp add: card_mono)
  then show "0 \<le> real (card (B \<inter> A)) / real (card A) \<and> real (card (B \<inter> A)) / real (card A) \<le> 1"
    using pos by simp
  have "card (A \<inter> B) \<le> card A" using assms by (simp add: card_mono)
  then show "0 \<le> real (card (A \<inter> B)) / real (card A) \<and> real (card (A \<inter> B)) / real (card A) \<le> 1"
    using pos by simp
qed

lemma answer_f1_returns: "\<exists>v. answer_f1 U pred gold = Inr v \<and> 0 \<le> v \<and> v \<le> 1"
proof (cases "normalize_answer U pred = {} \<or> normalize_answer U (join (ascii '' '') gold) = {}")
  case True
  then show ?thesis by (auto simp: answer_f1_def Let_def)
next
  case False
  let ?P = "normalize_answer U pred" and ?G = "normalize_answer U (join (ascii '' '') gold)"
  from False have P: "?P \<noteq> {}" and G: "?G \<noteq> {}" by simp_all
  let ?p = "real (card (?P \<inter> ?G)) / real (card ?P)"
  let ?r = "real (card (?P \<inter> ?G)) / real (card ?G)"
  have pb: "0 \<le> ?p \<and> ?p \<le> 1" using ratio_bounds(2)[OF finite_normalize_answer P] .
  have rb: "0 \<le> ?r \<and> ?r \<le> 1" using ratio_bounds(1)[OF finite_normalize_answer G] .
  have eq: "answer_f1 U pred gold = Inr (if ?p + ?r > 0 then 2 * ?p * ?r / (?p + ?r) else 0)"
    using answer_f1_nonempty[OF P G] by (simp add: Let_def)
  show ?thesis
  proof (cases "?p + ?r > 0")
    case True
    with harmonic_bounds[of ?p ?r] pb rb eq show ?thesis by simp
  next
    case False
    with eq show ?thesis by simp
  qed
qed

text \<open>The evaluation of the concrete inputs below: the definitions of the ASCII tables.\<close>

lemmas ascii_eval =
  normalize_answer_def ascii_def ascii_tables_def split_def sub_non_word_def
  ascii_lower_def ascii_word_char_def ascii_space_char_def

lemmas demo_eval =
  demo_handler_def demo_corpus_def system_answers_def ascii_eval

text \<open>What one turn of the loop does to the three counters; the turn never raises.\<close>

lemma process_case_counts:
  "\<exists>s'. process_case U qh s tc = Inr s'
     \<and> hits_at_1 s' = hits_at_1 s +
         (if system_answers qh (question tc) \<noteq> []
             \<and> set (system_answers qh (question tc)) \<inter> set (golden_answer tc) \<noteq> {}
          then 1 else 0)
     \<and> hdr_denominator s' = hdr_denominator s +
         (if llm_correct U (llm_answer tc) (golden_answer tc) then 0 else 1)
     \<and> hdr_numerator s' = hdr_numerator s +
         (if \<not> llm_correct U (llm_answer tc) (golden_answer tc)
             \<and> set (golden_answer tc) \<subseteq> set (system_answers qh (question tc))
          then 1 else 0)"
proof -
  obtain v where v: "answer_f1 U (join (ascii '', '') (system_answers qh (question tc)))
      (golden_answer tc) = Inr v"
    using answer_f1_returns by blast
  show ?thesis
    by (simp add: process_case_def Let_def v split: option.split)
qed

lemma run_cases_counts:
  "\<exists>s'. run_cases U qh s tcs = Inr s'
     \<and> hits_at_1 s' = hits_at_1 s +
         int (length (filter (\<lambda>tc. system_answers qh (question tc) \<noteq> []
             \<and> set (system_answers qh (question tc)) \<inter> set (golden_answer tc) \<noteq> {}) tcs))
     \<and> hdr_denominator s' = hdr_denominator s +
         int (length (filter (\<lambda>tc. \<not> llm_correct U (llm_answer tc) (golden_answer tc)) tcs))
     \<and> hdr_numerator s' = hdr_numerator s +
         int (length (filter (\<lambda>tc. \<not> llm_correct U (llm_answer tc) (golden_answer tc)
             \<and> set (golden_answer tc) \<subseteq> set (system_answers qh (question tc))) tcs))"
proof (induction tcs arbitrary: s)
  case Nil
  then show ?case by simp
next
  case (Cons tc tcs)
  obtain s1 where s1: "process_case U qh s tc = Inr s1"
    and h1: "hits_at_1 s1 = hits_at_1 s +
         (if system_answers qh (question tc) \<noteq> []
             \<and> set (system_answers qh (question tc)) \<inter> set (golden_answer tc) \<noteq> {}
          then 1 else 0)"
    and d1: "hdr_denominator s1 = hdr_denominator s +
         (if llm_correct U (llm_answer tc) (golden_answer tc) then 0 else 1)"
    and n1: "hdr_numerator s1 = hdr_numerator s +
         (if \<not> llm_correct U (llm_answer tc) (golden_answer tc)
             \<and> set (golden_answer tc) \<subseteq> set (system_answers qh (question tc))
          then 1 else 0)"
    using process_case_counts [of U qh s tc] by blast
  from Cons.IH [of s1] obtain s' where s': "run_cases U qh s1 tcs = Inr s'"
    and h2: "hits_at_1 s' = hits_at_1 s1 +
         int (length (filter (\<lambda>tc. system_answers qh (question tc) \<noteq> []
             \<and> set (system_answers qh (question tc)) \<inter> set (golden_answer tc) \<noteq> {}) tcs))"
    and d2: "hdr_denominator s' = hdr_denominator s1 +
         int (length (filter (\<lambda>tc. \<not> llm_correct U (llm_answer tc) (golden_answer tc)) tcs))"
    and n2: "hdr_numerator s' = hdr_numerator s1 +
         int (length (filter (\<lambda>tc. \<not> llm_correct U (llm_answer tc) (golden_answer tc)
             \<and> set (golden_answer tc) \<subseteq> set (system_answers qh (question tc))) tcs))"
    by blast
  have "run_cases U qh s (tc # tcs) = Inr s'" using s1 s' by simp
  moreover have "hits_at_1 s' = hits_at_1 s +
         int (length (filter (\<lambda>tc. system_answers qh (question tc) \<noteq> []
             \<and> set (system_answers qh (question tc)) \<inter> set (golden_answer tc) \<noteq> {}) (tc # tcs)))"
    using h1 h2 by simp
  moreover have "hdr_denominator s' = hdr_denominator s +
         int (length (filter (\<lambda>tc. \<not> llm_correct U (llm_answer tc) (golden_answer tc)) (tc # tcs)))"
    using d1 d2 by simp
  moreover have "hdr_numerator s' = hdr_numerator s +
         int (length (filter (\<lambda>tc. \<not> llm_correct U (llm_answer tc) (golden_answer tc)
             \<and> set (golden_answer tc) \<subseteq> set (system_answers qh (question tc))) (tc # tcs)))"
    using n1 n2 by simp
  ultimately show ?case by blast
qed

text \<open>The state after a prefix of the corpus is the state the loop goes on from.\<close>

lemma run_cases_append:
  "run_cases U qh s (xs @ ys) =
     (case run_cases U qh s xs of Inl e \<Rightarrow> Inl e | Inr s' \<Rightarrow> run_cases U qh s' ys)"
  by (induction xs arbitrary: s) (simp_all split: sum.split)

lemma hdr_rate_returns:
  "hdr_rate n d = Inr (if d > 0 then real_of_int n / real_of_int d * 100 else 0)"
  by (simp add: hdr_rate_def truediv_def)

lemma evaluate_nonempty:
  assumes ne: "tcs \<noteq> []" and run: "run_cases U qh initial_state tcs = Inr s"
  shows "evaluate U qh tcs =
     Inr \<lparr>avg_f1 = f1_total s / real (length tcs) * 100,
          hits_at_1_rate = real_of_int (hits_at_1 s) / real (length tcs) * 100,
          hdr = (if hdr_denominator s > 0
                 then real_of_int (hdr_numerator s) / real_of_int (hdr_denominator s) * 100
                 else 0)\<rparr>"
  using ne run by (simp add: evaluate_def Let_def truediv_def hdr_rate_returns)

subsection \<open>The F1 score\<close>

text \<open>
  C1. For every predicted string and gold sequence, \<open>answer_f1\<close> returns 1 when both
  normalized token sets are empty, 0 when the gold set is empty and the predicted set is
  not, 0 when the predicted set is empty and the gold set is not, and otherwise the
  harmonic mean \<open>2 * precision * recall / (precision + recall)\<close> of
  \<open>precision = |common| / |pred_tokens|\<close> and \<open>recall = |common| / |gold_tokens|\<close>, with
  \<open>common\<close> the intersection of the two sets (0 if \<open>precision + recall = 0\<close>). No
  branch raises.
\<close>

theorem answer_f1_cases:
  "answer_f1 U p g =
     (let pred_tokens = normalize_answer U p;
          gold_tokens = normalize_answer U (join (ascii '' '') g);
          common = pred_tokens \<inter> gold_tokens;
          precision = real (card common) / real (card pred_tokens);
          recall = real (card common) / real (card gold_tokens)
      in if gold_tokens = {} \<and> pred_tokens = {} then Inr 1
         else if gold_tokens = {} then Inr 0
         else if pred_tokens = {} then Inr 0
         else if precision + recall = 0 then Inr 0
         else Inr (2 * precision * recall / (precision + recall)))"
proof (cases "normalize_answer U p = {} \<or> normalize_answer U (join (ascii '' '') g) = {}")
  case True
  then show ?thesis by (auto simp: answer_f1_def Let_def)
next
  case False
  let ?P = "normalize_answer U p" and ?G = "normalize_answer U (join (ascii '' '') g)"
  from False have P: "?P \<noteq> {}" and G: "?G \<noteq> {}" by simp_all
  let ?p = "real (card (?P \<inter> ?G)) / real (card ?P)"
  let ?r = "real (card (?P \<inter> ?G)) / real (card ?G)"
  have nn: "0 \<le> ?p + ?r" by simp
  have eq: "answer_f1 U p g = Inr (if ?p + ?r > 0 then 2 * ?p * ?r / (?p + ?r) else 0)"
    using answer_f1_nonempty[OF P G] by (simp add: Let_def)
  have "(?p + ?r > 0) = (?p + ?r \<noteq> 0)" using nn by linarith
  with eq P G show ?thesis by (simp add: Let_def)
qed

theorem answer_f1_cases_witness:
  "answer_f1 ascii_tables (ascii ''x y z'') [ascii ''y'', ascii ''w''] = Inr (2 / 5)
   \<and> answer_f1 ascii_tables [] [] = Inr 1
   \<and> answer_f1 ascii_tables (ascii ''anything'') [] = Inr 0
   \<and> answer_f1 ascii_tables [] [ascii ''x''] = Inr 0"
  using answer_f1_cases [of ascii_tables "ascii ''x y z''" "[ascii ''y'', ascii ''w'']"]
    answer_f1_cases [of ascii_tables "[]" "[]"]
    answer_f1_cases [of ascii_tables "ascii ''anything''" "[]"]
    answer_f1_cases [of ascii_tables "[]" "[ascii ''x'']"]
  by (simp add: ascii_eval)

text \<open>
  C4. For every predicted string and every gold sequence, \<open>answer_f1\<close> returns a value
  in the closed interval from 0 to 1.
\<close>

theorem answer_f1_in_unit_interval:
  "\<exists>v. answer_f1 U p g = Inr v \<and> 0 \<le> v \<and> v \<le> 1"
  by (rule answer_f1_returns)

text \<open>
  C8 as the specification states it: \<open>answer_f1\<close> of \<^verbatim>\<open>"a b"\<close> against
  \<^verbatim>\<open>["a"]\<close> differs from \<open>answer_f1\<close> of \<^verbatim>\<open>"a"\<close> against \<^verbatim>\<open>["a", "b"]\<close>. It
  does not: the two calls swap precision and recall, 1/2 and 1, and the harmonic mean is
  the same.
\<close>

theorem swapped_pair_counterexample:
  "\<not> (answer_f1 ascii_tables (ascii ''a b'') [ascii ''a'']
        \<noteq> answer_f1 ascii_tables (ascii ''a'') [ascii ''a'', ascii ''b''])"
  by (simp add: answer_f1_def truediv_def ascii_eval)

text \<open>
  C8, amended. For all tables that treat the three characters of the inputs as Python
  does (\<^verbatim>\<open>a\<close> and \<^verbatim>\<open>b\<close> lower-case word characters, the blank a white space),
  both calls return 2/3.
\<close>

theorem swapped_pair_equal:
  assumes "lower U (ascii ''a b'') = ascii ''a b''" and "lower U (ascii ''a'') = ascii ''a''"
    and "word_char U 97" and "word_char U 98" and "space_char U 32"
    and "\<not> space_char U 97" and "\<not> space_char U 98"
  shows "answer_f1 U (ascii ''a b'') [ascii ''a''] = Inr (2 / 3)
     \<and> answer_f1 U (ascii ''a'') [ascii ''a'', ascii ''b''] = Inr (2 / 3)"
proof -
  have l1: "lower U [97, 32, 98] = [97, 32, 98]" and l2: "lower U [97] = [97]"
    using assms(1,2) by (simp_all add: ascii_def)
  have n1: "normalize_answer U [97, 32, 98] = {[97], [98]}"
    using assms(3-7) by (simp add: normalize_answer_def l1 split_def sub_non_word_def)
  have n2: "normalize_answer U [97] = {[97]}"
    using assms(3-7) by (simp add: normalize_answer_def l2 split_def sub_non_word_def)
  show ?thesis
    by (simp add: answer_f1_def truediv_def ascii_def n1 n2)
qed

theorem swapped_pair_equal_witness:
  "answer_f1 ascii_tables (ascii ''a b'') [ascii ''a''] = Inr (2 / 3)
     \<and> answer_f1 ascii_tables (ascii ''a'') [ascii ''a'', ascii ''b''] = Inr (2 / 3)"
  by (rule swapped_pair_equal)
    (simp_all add: ascii_def ascii_tables_def ascii_lower_def ascii_word_char_def ascii_space_char_def)

subsection \<open>The error classifier\<close>

text \<open>
  C2. \<open>classify_error\<close> returns exactly one of four distinct category names, by a fixed
  priority: \<^verbatim>\<open>pattern_mismatch\<close> exactly when the question matched no pattern,
  whatever the answers are; otherwise \<^verbatim>\<open>kg_missing\<close> exactly when the system answer
  sequence is empty; otherwise \<^verbatim>\<open>correct\<close> exactly when the set of system answers
  equals the set of gold answers as strings; otherwise \<^verbatim>\<open>wrong_retrieval\<close>.
\<close>

theorem classify_error_priority:
  "classify_error q golden system_pred matched \<in>
     {ascii ''pattern_mismatch'', ascii ''kg_missing'', ascii ''correct'', ascii ''wrong_retrieval''}
   \<and> distinct [ascii ''pattern_mismatch'', ascii ''kg_missing'', ascii ''correct'',
        ascii ''wrong_retrieval'']
   \<and> (classify_error q golden system_pred matched = ascii ''pattern_mismatch'') = (\<not> matched)
   \<and> (classify_error q golden system_pred matched = ascii ''kg_missing'') =
       (matched \<and> system_pred = [])
   \<and> (classify_error q golden system_pred matched = ascii ''correct'') =
       (matched \<and> system_pred \<noteq> [] \<and> set system_pred = set golden)
   \<and> (classify_error q golden system_pred matched = ascii ''wrong_retrieval'') =
       (matched \<and> system_pred \<noteq> [] \<and> set system_pred \<noteq> set golden)"
  by (simp add: classify_error_def ascii_def)

theorem classify_error_priority_witness:
  "classify_error [1] [[2]] [[2]] False = ascii ''pattern_mismatch''
   \<and> classify_error [1] [[2]] [] True = ascii ''kg_missing''
   \<and> classify_error [1] [[2], [3]] [[3], [2], [3]] True = ascii ''correct''
   \<and> classify_error [1] [[2]] [[3]] True = ascii ''wrong_retrieval''"
  using classify_error_priority [of "[1]" "[[2]]" "[[2]]" False]
    classify_error_priority [of "[1]" "[[2]]" "[]" True]
    classify_error_priority [of "[1]" "[[2], [3]]" "[[3], [2], [3]]" True]
    classify_error_priority [of "[1]" "[[2]]" "[[3]]" True]
  by (simp add: insert_commute)

text \<open>
  C10. The result of \<open>classify_error\<close> does not depend on its question argument: it is
  determined by the gold answers, the system answers and the pattern-match flag.
\<close>

theorem classify_error_ignores_question:
  "classify_error q1 golden system_pred matched = classify_error q2 golden system_pred matched"
  by (simp add: classify_error_def)

text \<open>
  C9 as the specification states it: the question "who sang Nocturne" matches none of
  the five patterns and is classified \<^verbatim>\<open>pattern_mismatch\<close> whatever the system
  answers. It matches the pattern of line 76, and with the gold answer returned by the
  system its category is not \<^verbatim>\<open>pattern_mismatch\<close>.
\<close>

theorem night_song_counterexample:
  "matched_patterns night_song_question
   \<and> classify_error night_song_question [[21608, 26480, 20262]] [[21608, 26480, 20262]]
        (matched_patterns night_song_question) \<noteq> ascii ''pattern_mismatch''"
  by (simp add: night_song_question_def matched_patterns_def pat_who_sang_def lits_def
      classify_error_def ascii_def)

text \<open>
  C9, amended. The question matches the third pattern (line 76) and none of the other
  four, so the flag computed at lines 73 to 79 is true and the question is never
  classified \<^verbatim>\<open>pattern_mismatch\<close>: its category is \<^verbatim>\<open>kg_missing\<close>,
  \<^verbatim>\<open>correct\<close> or \<^verbatim>\<open>wrong_retrieval\<close>, by the system answer.
\<close>

theorem night_song_matches_who_sang:
  "re_search pat_who_sang night_song_question
   \<and> \<not> re_search pat_lyricist_of_song night_song_question
   \<and> \<not> re_search pat_is_sung_by_whom night_song_question
   \<and> \<not> re_search pat_who_wrote_lyrics night_song_question
   \<and> \<not> re_search pat_of_which_album night_song_question
   \<and> matched_patterns night_song_question
   \<and> classify_error night_song_question golden system_pred (matched_patterns night_song_question)
        \<noteq> ascii ''pattern_mismatch''
   \<and> classify_error night_song_question golden system_pred (matched_patterns night_song_question)
        = (if system_pred = [] then ascii ''kg_missing''
           else if set system_pred = set golden then ascii ''correct''
           else ascii ''wrong_retrieval'')"
proof -
  have m: "re_search pat_who_sang night_song_question"
    by (simp add: night_song_question_def pat_who_sang_def lits_def)
  have n1: "\<not> re_search pat_lyricist_of_song night_song_question"
    by (simp add: night_song_question_def pat_lyricist_of_song_def lits_def)
  have n2: "\<not> re_search pat_is_sung_by_whom night_song_question"
    by (simp add: night_song_question_def pat_is_sung_by_whom_def lits_def)
  have n3: "\<not> re_search pat_who_wrote_lyrics night_song_question"
    by (simp add: night_song_question_def pat_who_wrote_lyrics_def lits_def)
  have n4: "\<not> re_search pat_of_which_album night_song_question"
    by (simp add: night_song_question_def pat_of_which_album_def lits_def)
  have mp: "matched_patterns night_song_question"
    using m by (simp add: matched_patterns_def)
  show ?thesis
    using m n1 n2 n3 n4 mp by (simp add: classify_error_def ascii_def)
qed

subsection \<open>The counters of the loop and the final ratios\<close>

text \<open>
  C7. A case counts for Hits@1 if and only if the system answer sequence is not empty
  and its set of answer strings meets the set of gold answer strings; the strings are
  compared as they are, not their normalized tokens. After the loop the counter is the
  number of such cases.
\<close>

theorem hits_at_1_counted_iff:
  "(\<exists>s'. process_case U qh s tc = Inr s'
      \<and> (hits_at_1 s' = hits_at_1 s + 1) =
          (system_answers qh (question tc) \<noteq> []
           \<and> set (system_answers qh (question tc)) \<inter> set (golden_answer tc) \<noteq> {})
      \<and> (hits_at_1 s' = hits_at_1 s) =
          (\<not> (system_answers qh (question tc) \<noteq> []
           \<and> set (system_answers qh (question tc)) \<inter> set (golden_answer tc) \<noteq> {})))
   \<and> (\<exists>s'. run_cases U qh initial_state tcs = Inr s'
      \<and> hits_at_1 s' = int (length (filter (\<lambda>tc. system_answers qh (question tc) \<noteq> []
           \<and> set (system_answers qh (question tc)) \<inter> set (golden_answer tc) \<noteq> {}) tcs)))"
proof
  obtain s' where p: "process_case U qh s tc = Inr s'"
    and h: "hits_at_1 s' = hits_at_1 s +
         (if system_answers qh (question tc) \<noteq> []
             \<and> set (system_answers qh (question tc)) \<inter> set (golden_answer tc) \<noteq> {}
          then 1 else 0)"
    using process_case_counts [of U qh s tc] by blast
  show "\<exists>s'. process_case U qh s tc = Inr s'
      \<and> (hits_at_1 s' = hits_at_1 s + 1) =
          (system_answers qh (question tc) \<noteq> []
           \<and> set (system_answers qh (question tc)) \<inter> set (golden_answer tc) \<noteq> {})
      \<and> (hits_at_1 s' = hits_at_1 s) =
          (\<not> (system_answers qh (question tc) \<noteq> []
           \<and> set (system_answers qh (question tc)) \<inter> set (golden_answer tc) \<noteq> {}))"
    using p h by (intro exI [of _ s']) (simp split: if_splits)
next
  obtain s' where r: "run_cases U qh initial_state tcs = Inr s'"
    and h: "hits_at_1 s' = hits_at_1 initial_state +
         int (length (filter (\<lambda>tc. system_answers qh (question tc) \<noteq> []
             \<and> set (system_answers qh (question tc)) \<inter> set (golden_answer tc) \<noteq> {}) tcs))"
    using run_cases_counts [of U qh initial_state tcs] by blast
  show "\<exists>s'. run_cases U qh initial_state tcs = Inr s'
      \<and> hits_at_1 s' = int (length (filter (\<lambda>tc. system_answers qh (question tc) \<noteq> []
           \<and> set (system_answers qh (question tc)) \<inter> set (golden_answer tc) \<noteq> {}) tcs))"
    using r h by (simp add: initial_state_def)
qed

theorem hits_at_1_counted_iff_witness:
  "(\<exists>s'. process_case ascii_tables demo_handler initial_state (hits_corpus ! 0) = Inr s'
        \<and> hits_at_1 s' = 1)
   \<and> (\<exists>s'. process_case ascii_tables demo_handler initial_state (hits_corpus ! 1) = Inr s'
        \<and> hits_at_1 s' = 0)
   \<and> (\<exists>s'. process_case ascii_tables demo_handler initial_state (hits_corpus ! 2) = Inr s'
        \<and> hits_at_1 s' = 0)
   \<and> (\<exists>s'. run_cases ascii_tables demo_handler initial_state hits_corpus = Inr s'
        \<and> hits_at_1 s' = 1)"
proof -
  let ?hit = "\<lambda>tc. system_answers demo_handler (question tc) \<noteq> []
     \<and> set (system_answers demo_handler (question tc)) \<inter> set (golden_answer tc) \<noteq> {}"
  have a0: "?hit (hits_corpus ! 0)"
    by (simp add: hits_corpus_def demo_handler_def system_answers_def ascii_def)
  have a1: "\<not> ?hit (hits_corpus ! 1)"
    by (simp add: hits_corpus_def demo_handler_def system_answers_def ascii_def)
  have a2: "\<not> ?hit (hits_corpus ! 2)"
    by (simp add: hits_corpus_def demo_handler_def system_answers_def ascii_def)
  have flt: "filter ?hit hits_corpus = [hits_corpus ! 0]"
    by (simp add: hits_corpus_def demo_handler_def system_answers_def ascii_def)
  have h0: "hits_at_1 initial_state = 0"
    by (simp add: initial_state_def)
  have "\<exists>s'. process_case ascii_tables demo_handler initial_state (hits_corpus ! 0) = Inr s'
        \<and> hits_at_1 s' = 1"
    using hits_at_1_counted_iff [of ascii_tables demo_handler initial_state "hits_corpus ! 0" hits_corpus]
      a0 h0 by auto
  moreover have "\<exists>s'. process_case ascii_tables demo_handler initial_state (hits_corpus ! 1) = Inr s'
        \<and> hits_at_1 s' = 0"
    using hits_at_1_counted_iff [of ascii_tables demo_handler initial_state "hits_corpus ! 1" hits_corpus]
      a1 h0 by auto
  moreover have "\<exists>s'. process_case ascii_tables demo_handler initial_state (hits_corpus ! 2) = Inr s'
        \<and> hits_at_1 s' = 0"
    using hits_at_1_counted_iff [of ascii_tables demo_handler initial_state "hits_corpus ! 2" hits_corpus]
      a2 h0 by auto
  moreover have "\<exists>s'. run_cases ascii_tables demo_handler initial_state hits_corpus = Inr s'
        \<and> hits_at_1 s' = 1"
    using hits_at_1_counted_iff [of ascii_tables demo_handler initial_state "hits_corpus ! 0" hits_corpus]
    unfolding flt by simp
  ultimately show ?thesis by blast
qed

text \<open>
  C3. The denominator of the hallucination-correction rate counts exactly the cases whose
  baseline token set is not a superset of the lower-cased gold answers; the numerator
  counts exactly those of them whose system answer set is a superset of the gold answer
  set; the rate of line 120 is numerator / denominator * 100, and 0 without an error when
  the denominator is zero. For a corpus that is not empty it is the rate \<open>evaluate\<close>
  reports.
\<close>

theorem hdr_counts_and_rate:
  "(let wrong = (\<lambda>tc. \<not> lower U ` set (golden_answer tc) \<subseteq> normalize_answer U (llm_answer tc));
        covered = (\<lambda>tc. set (golden_answer tc) \<subseteq> set (system_answers qh (question tc)));
        den = int (length (filter wrong tcs));
        num = int (length (filter (\<lambda>tc. wrong tc \<and> covered tc) tcs));
        rate = (if den = 0 then 0 else real_of_int num / real_of_int den * 100)
    in \<exists>s. run_cases U qh initial_state tcs = Inr s
         \<and> hdr_denominator s = den \<and> hdr_numerator s = num
         \<and> hdr_rate (hdr_numerator s) (hdr_denominator s) = Inr rate
         \<and> (tcs = [] \<or> (\<exists>r. evaluate U qh tcs = Inr r \<and> hdr r = rate)))"
proof -
  let ?wrong = "\<lambda>tc. \<not> lower U ` set (golden_answer tc) \<subseteq> normalize_answer U (llm_answer tc)"
  let ?covered = "\<lambda>tc. set (golden_answer tc) \<subseteq> set (system_answers qh (question tc))"
  obtain s where run: "run_cases U qh initial_state tcs = Inr s"
    and d: "hdr_denominator s = hdr_denominator initial_state +
         int (length (filter (\<lambda>tc. \<not> llm_correct U (llm_answer tc) (golden_answer tc)) tcs))"
    and n: "hdr_numerator s = hdr_numerator initial_state +
         int (length (filter (\<lambda>tc. \<not> llm_correct U (llm_answer tc) (golden_answer tc)
             \<and> set (golden_answer tc) \<subseteq> set (system_answers qh (question tc))) tcs))"
    using run_cases_counts [of U qh initial_state tcs] by blast
  have d': "int (length (filter ?wrong tcs)) = hdr_denominator s"
    using d by (simp add: llm_correct_def initial_state_def)
  have n': "int (length (filter (\<lambda>tc. ?wrong tc \<and> ?covered tc) tcs)) = hdr_numerator s"
    using n by (simp add: llm_correct_def initial_state_def)
  define rate where "rate = (if hdr_denominator s = 0 then 0
     else real_of_int (hdr_numerator s) / real_of_int (hdr_denominator s) * 100)"
  have d0: "0 \<le> hdr_denominator s" using d'[symmetric] by simp
  then have gt: "(hdr_denominator s > 0) = (hdr_denominator s \<noteq> 0)" by linarith
  have r: "hdr_rate (hdr_numerator s) (hdr_denominator s) = Inr rate"
    unfolding rate_def hdr_rate_returns gt by simp
  have ev: "tcs = [] \<or> (\<exists>r. evaluate U qh tcs = Inr r \<and> hdr r = rate)"
  proof (cases "tcs = []")
    case True
    then show ?thesis by simp
  next
    case False
    from evaluate_nonempty [OF False run] show ?thesis
      unfolding rate_def gt by simp
  qed
  show ?thesis
    unfolding Let_def d' n' using run r ev unfolding rate_def by blast
qed

theorem hdr_counts_and_rate_witness:
  "\<exists>s. run_cases ascii_tables demo_handler initial_state demo_corpus = Inr s
      \<and> hdr_denominator s = 2 \<and> hdr_numerator s = 1
      \<and> hdr_rate (hdr_numerator s) (hdr_denominator s) = Inr 50
      \<and> (\<exists>r. evaluate ascii_tables demo_handler demo_corpus = Inr r \<and> hdr r = 50)"
proof -
  have ne: "demo_corpus \<noteq> []" by (simp add: demo_corpus_def)
  have f1: "filter (\<lambda>tc. \<not> lower ascii_tables ` set (golden_answer tc)
        \<subseteq> normalize_answer ascii_tables (llm_answer tc)) demo_corpus = tl demo_corpus"
    by (simp add: demo_eval)
  have f2: "filter (\<lambda>tc. \<not> lower ascii_tables ` set (golden_answer tc)
        \<subseteq> normalize_answer ascii_tables (llm_answer tc)
        \<and> set (golden_answer tc) \<subseteq> set (system_answers demo_handler (question tc))) demo_corpus
      = [demo_corpus ! 1]"
    by (simp add: demo_eval)
  have l1: "length (tl demo_corpus) = 2" by (simp add: demo_corpus_def)
  show ?thesis
    using hdr_counts_and_rate [of ascii_tables demo_handler demo_corpus] ne
    unfolding Let_def f1 f2 l1 by simp
qed

text \<open>
  C6. After any number of turns of the loop, that is after any prefix \<open>done\<close> of the
  corpus, the numerator is at most the denominator and the denominator is at most the
  number of cases processed, hence at most the size of the corpus.
\<close>

theorem hdr_invariant_at_every_step:
  "\<exists>s. run_cases U qh initial_state done = Inr s
      \<and> run_cases U qh initial_state (done @ rest) = run_cases U qh s rest
      \<and> 0 \<le> hdr_numerator s
      \<and> hdr_numerator s \<le> hdr_denominator s
      \<and> hdr_denominator s \<le> int (length done)
      \<and> int (length done) \<le> int (length (done @ rest))"
proof -
  obtain s where run: "run_cases U qh initial_state done = Inr s"
    and d: "hdr_denominator s = hdr_denominator initial_state +
         int (length (filter (\<lambda>tc. \<not> llm_correct U (llm_answer tc) (golden_answer tc)) done))"
    and n: "hdr_numerator s = hdr_numerator initial_state +
         int (length (filter (\<lambda>tc. \<not> llm_correct U (llm_answer tc) (golden_answer tc)
             \<and> set (golden_answer tc) \<subseteq> set (system_answers qh (question tc))) done))"
    using run_cases_counts [of U qh initial_state "done"] by blast
  have cont: "run_cases U qh initial_state (done @ rest) = run_cases U qh s rest"
    by (simp add: run_cases_append run)
  have n0: "0 \<le> hdr_numerator s" using n by (simp add: initial_state_def)
  have "length (filter (\<lambda>tc. \<not> llm_correct U (llm_answer tc) (golden_answer tc)
             \<and> set (golden_answer tc) \<subseteq> set (system_answers qh (question tc))) done)
      = length (filter (\<lambda>tc. set (golden_answer tc) \<subseteq> set (system_answers qh (question tc)))
          (filter (\<lambda>tc. \<not> llm_correct U (llm_answer tc) (golden_answer tc)) done))"
    by (simp add: conj_commute)
  also have "\<dots> \<le> length (filter (\<lambda>tc. \<not> llm_correct U (llm_answer tc) (golden_answer tc)) done)"
    by (rule length_filter_le)
  finally have nd: "hdr_numerator s \<le> hdr_denominator s"
    using d n by (simp add: initial_state_def)
  have dl: "hdr_denominator s \<le> int (length done)"
    using d by (simp add: initial_state_def)
  show ?thesis using run cont n0 nd dl by simp
qed

theorem hdr_invariant_at_every_step_witness:
  "\<exists>s. run_cases ascii_tables demo_handler initial_state (take 2 demo_corpus) = Inr s
      \<and> run_cases ascii_tables demo_handler initial_state demo_corpus =
          run_cases ascii_tables demo_handler s (drop 2 demo_corpus)
      \<and> 0 \<le> hdr_numerator s
      \<and> hdr_numerator s \<le> hdr_denominator s
      \<and> hdr_denominator s \<le> 2"
  using hdr_invariant_at_every_step [of ascii_tables demo_handler "take 2 demo_corpus" "drop 2 demo_corpus"]
  by (simp add: demo_corpus_def)

text \<open>
  C5. On an empty corpus the average F1 and the hit rate should not divide by zero. They
  do: line 118 divides by \<^verbatim>\<open>total\<close>, which is 0, with no guard, and \<open>evaluate\<close>
  raises \<^verbatim>\<open>ZeroDivisionError\<close>; only the ratio of line 120 is guarded.
\<close>

theorem evaluate_empty_corpus_raises:
  "evaluate U query_handler [] = Inl ZeroDivisionError"
  by (simp add: evaluate_def truediv_def)

end
